theory Spec2Isabelle
  imports
    Main
    "HOL-Library.Word"
    "HOL-Library.FSet"
    "HOL-Library.Char_ord"
    "HOL-Library.List_Lexorder"
    "HOL-Library.Monad_Syntax"
begin

section \<open>Python values used by the program\<close>

text \<open>
  A Python \<open>str\<close> is a \<open>string\<close>: one list element per unit that \<open>len\<close> and slicing
  count. The slice \<open>s[i:j]\<close> with literal bounds \<open>0 \<le> i \<le> j\<close> never raises; it is cut
  off at the end of the string.
\<close>

definition slice :: "nat \<Rightarrow> nat \<Rightarrow> 'a list \<Rightarrow> 'a list" where
  "slice i j xs = take (j - i) (drop i xs)"

subsection \<open>Decimal digits\<close>

definition digit_char :: "nat \<Rightarrow> char" where
  "digit_char d = ''0123456789'' ! d"

definition digit_val :: "char \<Rightarrow> nat option" where
  "digit_val c = map_of (zip ''0123456789'' [0, 1, 2, 3, 4, 5, 6, 7, 8, 9]) c"

text \<open>\<open>str(n)\<close> for a Python int: decimal digits, a minus sign when negative.\<close>

function str_nat :: "nat \<Rightarrow> string" where
  "str_nat n = (if n < 10 then [digit_char n] else str_nat (n div 10) @ [digit_char (n mod 10)])"
  by pat_completeness auto
termination
  by (relation "measure id") auto

declare str_nat.simps [simp del]

definition str_int :: "int \<Rightarrow> string" where
  "str_int i = (if i < 0 then CHR ''-'' # str_nat (nat (- i)) else str_nat (nat i))"

text \<open>Exceptions are values; a function that may raise returns \<open>py_error + 'a\<close>.\<close>

datatype py_error =
  JSONDecodeError | KeyError | AttributeError | TypeError | ValueError
  | UnicodeDecodeError | HTTPError | RuntimeError

subsection \<open>Naive datetimes and their ISO text\<close>

text \<open>
  A naive \<open>datetime\<close> is its seven fields. Python's constructor admits exactly the
  values of \<open>valid_datetime\<close>. \<open>isoformat\<close> is
  \<^verbatim>\<open>YYYY-MM-DDTHH:MM:SS\<close>, followed by \<^verbatim>\<open>.ffffff\<close> when the microsecond is not 0.
  \<open>fromisoformat\<close> is modelled on the texts of that shape: it reads them back and
  raises \<open>ValueError\<close> on a field out of range or on any other text. (Python reads
  some further ISO 8601 spellings, such as a bare date or a UTC offset; the program never
  writes them.)
\<close>

record datetime =
  dt_year :: nat
  dt_month :: nat
  dt_day :: nat
  dt_hour :: nat
  dt_minute :: nat
  dt_second :: nat
  dt_microsecond :: nat

definition is_leap :: "nat \<Rightarrow> bool" where
  "is_leap y = (y mod 4 = 0 \<and> (y mod 100 \<noteq> 0 \<or> y mod 400 = 0))"

definition days_in_month :: "nat \<Rightarrow> nat \<Rightarrow> nat" where
  "days_in_month y m =
     (if m = 2 then (if is_leap y then 29 else 28)
      else if m = 4 \<or> m = 6 \<or> m = 9 \<or> m = 11 then 30 else 31)"

definition valid_datetime :: "datetime \<Rightarrow> bool" where
  "valid_datetime d =
     (1 \<le> dt_year d \<and> dt_year d \<le> 9999 \<and> 1 \<le> dt_month d \<and> dt_month d \<le> 12
      \<and> 1 \<le> dt_day d \<and> dt_day d \<le> days_in_month (dt_year d) (dt_month d)
      \<and> dt_hour d < 24 \<and> dt_minute d < 60 \<and> dt_second d < 60
      \<and> dt_microsecond d < 1000000)"

text \<open>\<open>pad w k\<close> is \<open>k\<close> in exactly \<open>w\<close> decimal digits, as \<^verbatim>\<open>%0wd\<close> prints a \<open>k < 10 ^ w\<close>.\<close>

primrec pad :: "nat \<Rightarrow> nat \<Rightarrow> string" where
  "pad 0 k = []"
| "pad (Suc w) k = digit_char (k div 10 ^ w mod 10) # pad w (k mod 10 ^ w)"

definition isoformat :: "datetime \<Rightarrow> string" where
  "isoformat d =
     pad 4 (dt_year d) @ ''-'' @ pad 2 (dt_month d) @ ''-'' @ pad 2 (dt_day d) @ ''T''
       @ pad 2 (dt_hour d) @ '':'' @ pad 2 (dt_minute d) @ '':'' @ pad 2 (dt_second d)
       @ (if dt_microsecond d = 0 then [] else ''.'' @ pad 6 (dt_microsecond d))"

fun parse_digits :: "nat \<Rightarrow> nat \<Rightarrow> string \<Rightarrow> (nat \<times> string) option" where
  "parse_digits 0 acc s = Some (acc, s)"
| "parse_digits (Suc w) acc [] = None"
| "parse_digits (Suc w) acc (c # s) =
     (case digit_val c of None \<Rightarrow> None | Some d \<Rightarrow> parse_digits w (acc * 10 + d) s)"

definition expect :: "char \<Rightarrow> string \<Rightarrow> string option" where
  "expect c s = (case s of [] \<Rightarrow> None | x # r \<Rightarrow> if x = c then Some r else None)"

definition parse_fraction :: "string \<Rightarrow> nat option" where
  "parse_fraction s =
     (if s = [] then Some 0
      else do {
        r \<leftarrow> expect CHR ''.'' s;
        (us, r') \<leftarrow> parse_digits 6 0 r;
        if r' = [] then Some us else None
      })"

definition parse_iso :: "string \<Rightarrow> datetime option" where
  "parse_iso s0 = do {
     (y, s1) \<leftarrow> parse_digits 4 0 s0;
     s2 \<leftarrow> expect CHR ''-'' s1;
     (mo, s3) \<leftarrow> parse_digits 2 0 s2;
     s4 \<leftarrow> expect CHR ''-'' s3;
     (d, s5) \<leftarrow> parse_digits 2 0 s4;
     s6 \<leftarrow> expect CHR ''T'' s5;
     (h, s7) \<leftarrow> parse_digits 2 0 s6;
     s8 \<leftarrow> expect CHR '':'' s7;
     (mi, s9) \<leftarrow> parse_digits 2 0 s8;
     s10 \<leftarrow> expect CHR '':'' s9;
     (sec, s11) \<leftarrow> parse_digits 2 0 s10;
     us \<leftarrow> parse_fraction s11;
     Some \<lparr>dt_year = y, dt_month = mo, dt_day = d, dt_hour = h, dt_minute = mi,
           dt_second = sec, dt_microsecond = us\<rparr>
   }"

definition fromisoformat :: "string \<Rightarrow> py_error + datetime" where
  "fromisoformat s =
     (case parse_iso s of
        None \<Rightarrow> Inl ValueError
      | Some d \<Rightarrow> if valid_datetime d then Inr d else Inl ValueError)"

section \<open>voiceink\_reader.py: the record id of a row\<close>

text \<open>
  Rows come from SQLite: \<open>Z_PK\<close> is the integer primary key, a signed 64-bit integer;
  \<open>ZID_HEX\<close> is \<open>hex(ZID)\<close>, a string, or nothing at all for a missing identifier
  (\<open>None\<close> and the empty string are both falsy for Python's \<open>or\<close>).

  \<^verbatim>\<open>
  record_id = row["ZID_HEX"] or str(row["Z_PK"])
  if record_id and len(record_id) == 32:
      record_id = f"{record_id[:8]}-{record_id[8:12]}-{record_id[12:16]}-{record_id[16:20]}-{record_id[20:]}"
  \<close>
\<close>

definition truthy_str :: "string option \<Rightarrow> bool" where
  "truthy_str s = (case s of None \<Rightarrow> False | Some x \<Rightarrow> x \<noteq> [])"

definition format_uuid :: "string \<Rightarrow> string" where
  "format_uuid r =
     take 8 r @ ''-'' @ slice 8 12 r @ ''-'' @ slice 12 16 r @ ''-'' @ slice 16 20 r
       @ ''-'' @ drop 20 r"

definition record_id :: "string option \<Rightarrow> 64 word \<Rightarrow> string" where
  "record_id zid_hex z_pk =
     (let r = (case zid_hex of
                 None \<Rightarrow> str_int (sint z_pk)
               | Some h \<Rightarrow> if h \<noteq> [] then h else str_int (sint z_pk))
      in if r \<noteq> [] \<and> length r = 32 then format_uuid r else r)"

section \<open>notion\_client.py: content blocks\<close>

text \<open>
  \<^verbatim>\<open>
  remaining_text = text
  while remaining_text:
      chunk = remaining_text[:2000]
      remaining_text = remaining_text[2000:]
      children.append(paragraph(chunk))
  \<close>
  The loop ends because every round removes at least one unit from a non-empty string.
\<close>

function chunks :: "'a list \<Rightarrow> 'a list list" where
  "chunks remaining = (if remaining = [] then [] else take 2000 remaining # chunks (drop 2000 remaining))"
  by pat_completeness auto
termination
  by (relation "measure length") auto

declare chunks.simps [simp del]

section \<open>sync\_tracker.py: the sync state and its file\<close>

subsection \<open>JSON values\<close>

text \<open>
  What \<open>json.loads\<close> returns: \<open>None\<close>, a bool, a number, a \<open>str\<close>, a list or a dict
  (its items; keys are distinct). Numbers are integers here; no claim reads a fraction.
\<close>

datatype json =
  JNull | JBool bool | JNumber int | JString string
  | JArray "json list" | JObject "(string \<times> json) list"

text \<open>Python's truth value of such a value, as \<open>if x:\<close> tests it.\<close>

fun truthy :: "json \<Rightarrow> bool" where
  "truthy JNull = False"
| "truthy (JBool b) = b"
| "truthy (JNumber n) = (n \<noteq> 0)"
| "truthy (JString s) = (s \<noteq> [])"
| "truthy (JArray xs) = (xs \<noteq> [])"
| "truthy (JObject kvs) = (kvs \<noteq> [])"

text \<open>\<open>d.get(k, default)\<close> on a dict.\<close>

definition dict_get :: "(string \<times> json) list \<Rightarrow> string \<Rightarrow> json \<Rightarrow> json" where
  "dict_get kvs k dflt = (case map_of kvs k of None \<Rightarrow> dflt | Some v \<Rightarrow> v)"

subsection \<open>SyncState\<close>

record sync_state =
  synced_ids :: "string fset"
  last_sync_time :: "datetime option"
  notion_cache_populated :: bool

text \<open>\<open>SyncState()\<close> with the defaults of the dataclass.\<close>

definition SyncState :: sync_state where
  "SyncState = \<lparr>synced_ids = {||}, last_sync_time = None, notion_cache_populated = False\<rparr>"

text \<open>
  \<open>mark_synced\<close> reads \<open>datetime.now()\<close>; the time read is the argument \<open>now\<close>.
\<close>

definition mark_synced :: "sync_state \<Rightarrow> string \<Rightarrow> datetime \<Rightarrow> sync_state" where
  "mark_synced self voiceink_id now =
     self\<lparr>synced_ids := finsert voiceink_id (synced_ids self), last_sync_time := Some now\<rparr>"

definition is_synced :: "sync_state \<Rightarrow> string \<Rightarrow> bool" where
  "is_synced self voiceink_id = (voiceink_id |\<in>| synced_ids self)"

definition merge_notion_ids :: "sync_state \<Rightarrow> string fset \<Rightarrow> sync_state" where
  "merge_notion_ids self notion_ids =
     self\<lparr>synced_ids := synced_ids self |\<union>| notion_ids, notion_cache_populated := True\<rparr>"

subsection \<open>The state file\<close>

text \<open>
  The state file is absent (\<open>None\<close>) or holds a text. A text is represented by what
  reading and decoding make of it: \<open>read_text\<close> cannot decode its bytes
  (\<open>Undecodable\<close>), \<open>json.loads\<close> raises \<open>JSONDecodeError\<close> on it (\<open>Not_json\<close>), or
  \<open>json.loads\<close> returns the given value (\<open>Json_text\<close>); \<open>json.dumps\<close> of a value
  writes a text that \<open>json.loads\<close> reads back as that value. Reading and writing the
  file itself succeed (no I/O error of the operating system is modelled).
\<close>

datatype file_text = Undecodable | Not_json | Json_text json

type_synonym state_file = "file_text option"

text \<open>
  \<open>load_sync_state\<close> returns a \<open>SyncState\<close>, raises, or returns an object whose fields
  are not of the declared types (a number among the ids, a flag that is not a bool):
  Python builds such an object without complaint, and it is no \<open>sync_state\<close>.
\<close>

datatype loaded = Loaded sync_state | Raised py_error | Ill_typed

text \<open>
  \<open>set(x)\<close> for a decoded value \<open>x\<close>: a list gives its elements and raises \<open>TypeError\<close>
  on an unhashable one (a list or a dict), a \<open>str\<close> gives its one-character strings, a
  dict its keys; nothing else is iterable. \<open>None\<close> stands for a set with an element
  that is not a \<open>str\<close>.
\<close>

fun unhashable :: "json \<Rightarrow> bool" where
  "unhashable (JArray xs) = True"
| "unhashable (JObject kvs) = True"
| "unhashable v = False"

fun str_of_json :: "json \<Rightarrow> string option" where
  "str_of_json (JString s) = Some s"
| "str_of_json v = None"

fun strs_of_json :: "json list \<Rightarrow> string list option" where
  "strs_of_json [] = Some []"
| "strs_of_json (v # vs) =
     (case str_of_json v of
        None \<Rightarrow> None
      | Some s \<Rightarrow> (case strs_of_json vs of None \<Rightarrow> None | Some ss \<Rightarrow> Some (s # ss)))"

fun set_of_json :: "json \<Rightarrow> py_error + string fset option" where
  "set_of_json (JArray xs) =
     (if list_ex unhashable xs then Inl TypeError
      else Inr (map_option fset_of_list (strs_of_json xs)))"
| "set_of_json (JString s) = Inr (Some (fset_of_list (map (\<lambda>c. [c]) s)))"
| "set_of_json (JObject kvs) = Inr (Some (fset_of_list (map fst kvs)))"
| "set_of_json v = Inl TypeError"

text \<open>
  The \<open>last_sync_time\<close> lines: nothing is read for a falsy entry;
  \<open>datetime.fromisoformat\<close> raises \<open>TypeError\<close> on an argument that is not a \<open>str\<close>.
\<close>

definition load_time :: "(string \<times> json) list \<Rightarrow> py_error + datetime option" where
  "load_time data =
     (let v = dict_get data ''last_sync_time'' JNull
      in if truthy v then
           (case v of
              JString s \<Rightarrow> (case fromisoformat s of Inl e \<Rightarrow> Inl e | Inr d \<Rightarrow> Inr (Some d))
            | _ \<Rightarrow> Inl TypeError)
         else Inr None)"

text \<open>
  The body of the \<open>try\<close>: \<open>.get\<close> on anything but a dict raises \<open>AttributeError\<close>;
  \<open>set(...)\<close> is evaluated first, then the flag is fetched, then the time.
\<close>

definition parse_state :: "file_text \<Rightarrow> loaded" where
  "parse_state t =
     (case t of
        Undecodable \<Rightarrow> Raised UnicodeDecodeError
      | Not_json \<Rightarrow> Raised JSONDecodeError
      | Json_text (JObject data) \<Rightarrow>
          (case set_of_json (dict_get data ''synced_ids'' (JArray [])) of
             Inl e \<Rightarrow> Raised e
           | Inr ids \<Rightarrow>
               (case load_time data of
                  Inl e \<Rightarrow> Raised e
                | Inr tm \<Rightarrow>
                    (case (ids, dict_get data ''notion_cache_populated'' (JBool False)) of
                       (Some i, JBool b) \<Rightarrow>
                         Loaded \<lparr>synced_ids = i, last_sync_time = tm,
                                 notion_cache_populated = b\<rparr>
                     | _ \<Rightarrow> Ill_typed)))
      | Json_text _ \<Rightarrow> Raised AttributeError)"

text \<open>\<open>load_sync_state\<close>: the \<open>except\<close> clause names two exceptions and no other.\<close>

definition load_sync_state :: "state_file \<Rightarrow> loaded" where
  "load_sync_state state_file =
     (case state_file of
        None \<Rightarrow> Loaded SyncState
      | Some t \<Rightarrow>
          (case parse_state t of
             Raised e \<Rightarrow>
               if e = JSONDecodeError \<or> e = KeyError then Loaded SyncState else Raised e
           | r \<Rightarrow> r))"

text \<open>
  \<open>save_sync_state\<close> writes \<open>json.dumps(data)\<close>. \<open>list(state.synced_ids)\<close> lists
  the set in an order Python does not specify; the model lists it sorted.
\<close>

definition state_data :: "sync_state \<Rightarrow> json" where
  "state_data state =
     JObject
       [(''synced_ids'', JArray (map JString (sorted_list_of_fset (synced_ids state)))),
        (''last_sync_time'',
           (case last_sync_time state of None \<Rightarrow> JNull | Some t \<Rightarrow> JString (isoformat t))),
        (''notion_cache_populated'', JBool (notion_cache_populated state))]"

definition save_sync_state :: "sync_state \<Rightarrow> state_file" where
  "save_sync_state state = Some (Json_text (state_data state))"

text \<open>
  A \<open>SyncState\<close> whose time, if any, is a datetime that Python can hold.
\<close>

definition valid_state :: "sync_state \<Rightarrow> bool" where
  "valid_state state =
     (case last_sync_time state of None \<Rightarrow> True | Some t \<Rightarrow> valid_datetime t)"

section \<open>The outside world\<close>

text \<open>
  Floating-point values (a duration, \<open>round(duration, 2)\<close>) are kept abstract: the
  type variable \<open>'f\<close>.
\<close>

record 'f transcription =
  t_id :: string
  t_text :: string
  t_enhanced_text :: "string option"
  t_timestamp :: datetime
  t_duration :: 'f
  t_prompt_name :: "string option"
  t_power_mode_name :: "string option"

datatype block = Paragraph string | Heading_2 string

datatype 'f property = Title string | Rich_text string | Date string | Number_round2 'f

text \<open>The JSON body of a request to \<open>/pages\<close>; \<open>properties\<close> is a dict.\<close>

record 'f payload =
  parent_database_id :: string
  properties :: "string \<rightharpoonup> 'f property"
  children :: "block list"

text \<open>
  What \<open>self._client.post("/pages", json=payload)\<close> does: it returns a response, with
  a status code and a body, or it raises. The body is one that \<open>response.json()\<close>
  decodes to a value, or one on which \<open>response.json()\<close> raises \<open>JSONDecodeError\<close>.
  \<open>Post_raises HTTPError\<close> stands for an \<open>httpx.HTTPError\<close> (any subclass);
  \<open>Post_raises e\<close> with another \<open>e\<close> for any other exception of the call, such as the
  \<open>ValueError\<close> of a payload that cannot be written as JSON.
\<close>

datatype body = Json_body json | Undecodable_body

datatype http_result = Response nat body | Post_raises py_error

text \<open>
  The calls made and the state file written are recorded in order: a request posted, a
  call of \<open>create_transcription_page\<close> for a record with what came of it (the exception
  it raised, or the truth value of what it returned), a call of \<open>save_sync_state\<close>, a
  call of \<open>get_all_synced_ids\<close>.
\<close>

datatype 'f event =
  Post "'f payload" | Upload "'f transcription" "py_error + bool" | Save sync_state
  | List_existing_ids

text \<open>
  The world: the state \<open>'w\<close> of everything remote (the Notion service, the network,
  the clock), the state file, and the record of events.
\<close>

record ('f, 'w) world =
  remote :: 'w
  state_file :: state_file
  log :: "'f event list"

text \<open>
  What the remote side does is a parameter: what a request comes to, what a call of
  \<open>get_all_synced_ids\<close> comes to (the set it returns, or the exception that leaves it:
  its handler too names \<open>httpx.HTTPError\<close> only), what \<open>datetime.now()\<close> reads.
\<close>

record ('f, 'w) env =
  http_post :: "'w \<Rightarrow> 'f payload \<Rightarrow> http_result \<times> 'w"
  get_all_synced_ids :: "'w \<Rightarrow> (py_error + string fset) \<times> 'w"
  clock :: "'w \<Rightarrow> datetime \<times> 'w"

definition post ::
  "('f, 'w) env \<Rightarrow> 'f payload \<Rightarrow> ('f, 'w) world \<Rightarrow> http_result \<times> ('f, 'w) world" where
  "post env p wd =
     (let (r, w') = http_post env (remote wd) p
      in (r, wd\<lparr>remote := w', log := log wd @ [Post p]\<rparr>))"

section \<open>notion\_client.py: create\_transcription\_page\<close>

record client =
  database_id :: string
  title_property :: string

definition page_title :: "string \<Rightarrow> string" where
  "page_title text' = (if length text' > 100 then take 100 text' @ ''...'' else text')"

definition page_properties ::
  "client \<Rightarrow> string \<Rightarrow> datetime \<Rightarrow> 'f \<Rightarrow> string option \<Rightarrow> (string \<rightharpoonup> 'f property)" where
  "page_properties self text' timestamp duration voiceink_id =
     (let properties =
            [title_property self \<mapsto> Title (page_title text'),
             ''Text'' \<mapsto> Rich_text (take 2000 text'),
             ''Timestamp'' \<mapsto> Date (isoformat timestamp),
             ''Duration'' \<mapsto> Number_round2 duration]
      in case voiceink_id of
           None \<Rightarrow> properties
         | Some v \<Rightarrow> if v \<noteq> [] then properties(''VoiceInk ID'' \<mapsto> Rich_text v) else properties)"

definition page_children :: "string \<Rightarrow> string option \<Rightarrow> block list" where
  "page_children text' enhanced_text =
     map Paragraph (chunks text')
       @ (if truthy_str enhanced_text
          then Heading_2 ''Enhanced Version'' # map Paragraph (chunks (the enhanced_text))
          else [])"

definition full_payload ::
  "client \<Rightarrow> string \<Rightarrow> datetime \<Rightarrow> 'f \<Rightarrow> string option \<Rightarrow> string option \<Rightarrow> 'f payload" where
  "full_payload self text' timestamp duration enhanced_text voiceink_id =
     \<lparr>parent_database_id = database_id self,
      properties = page_properties self text' timestamp duration voiceink_id,
      children = take 100 (page_children text' enhanced_text)\<rparr>"

definition minimal_payload :: "client \<Rightarrow> string \<Rightarrow> string option \<Rightarrow> 'f payload" where
  "minimal_payload self text' enhanced_text =
     \<lparr>parent_database_id = database_id self,
      properties = [title_property self \<mapsto> Title (page_title text')],
      children = take 100 (page_children text' enhanced_text)\<rparr>"

text \<open>
  \<open>return response.json()\<close>: the decoded body, or the \<open>JSONDecodeError\<close> of a body
  that does not decode.
\<close>

definition response_json :: "body \<Rightarrow> py_error + json option" where
  "response_json b =
     (case b of Json_body j \<Rightarrow> Inr (Some j) | Undecodable_body \<Rightarrow> Inl JSONDecodeError)"

text \<open>
  An exception inside the \<open>try\<close>: the only handler is \<open>except httpx.HTTPError\<close>, after
  which \<open>None\<close> is returned; any other exception leaves the function.
\<close>

definition handle :: "py_error \<Rightarrow> py_error + json option" where
  "handle e = (if e = HTTPError then Inr None else Inl e)"

text \<open>
  The \<open>try\<close> block: the first request; on a status other than 200 the second one, with
  the minimal properties. The result is \<open>Inl e\<close> when the exception \<open>e\<close> leaves the
  function, \<open>Inr\<close> of the \<open>dict | None\<close> returned otherwise. \<open>prompt_name\<close> is accepted
  and not used.
\<close>

definition create_transcription_page ::
  "('f, 'w) env \<Rightarrow> client \<Rightarrow> string \<Rightarrow> datetime \<Rightarrow> 'f \<Rightarrow> string option \<Rightarrow> string option
     \<Rightarrow> string option \<Rightarrow> ('f, 'w) world \<Rightarrow> (py_error + json option) \<times> ('f, 'w) world" where
  "create_transcription_page env self text' timestamp duration enhanced_text prompt_name
       voiceink_id wd =
     (let (r1, wd1) =
            post env (full_payload self text' timestamp duration enhanced_text voiceink_id) wd
      in case r1 of
           Post_raises e \<Rightarrow> (handle e, wd1)
         | Response status body \<Rightarrow>
             if status = 200 then (response_json body, wd1)
             else
               (let (r2, wd2) = post env (minimal_payload self text' enhanced_text) wd1
                in case r2 of
                     Post_raises e \<Rightarrow> (handle e, wd2)
                   | Response status2 body2 \<Rightarrow>
                       if status2 = 200 then (response_json body2, wd2) else (Inr None, wd2)))"

section \<open>main.py: the sync cycle\<close>

text \<open>\<open>if result:\<close> for the \<open>dict | None\<close> that \<open>create_transcription_page\<close> returns.\<close>

definition result_truthy :: "json option \<Rightarrow> bool" where
  "result_truthy result = (case result of None \<Rightarrow> False | Some body \<Rightarrow> truthy body)"

text \<open>
  Lines 156 to 162 of \<open>sync_command\<close>, run once before the first cycle: the exception
  that left them, if any, the state object and the world. \<open>if notion_ids:\<close> tests
  that the set is not empty.
\<close>

definition bootstrap ::
  "('f, 'w) env \<Rightarrow> sync_state \<Rightarrow> ('f, 'w) world
     \<Rightarrow> py_error option \<times> sync_state \<times> ('f, 'w) world" where
  "bootstrap env state wd =
     (if \<not> notion_cache_populated state then
        (let (r, w') = get_all_synced_ids env (remote wd);
             wd1 = wd\<lparr>remote := w', log := log wd @ [List_existing_ids]\<rparr>
         in case r of
              Inl e \<Rightarrow> (Some e, state, wd1)
            | Inr notion_ids \<Rightarrow>
                if notion_ids \<noteq> {||} then
                  (let state' = merge_notion_ids state notion_ids
                   in (None, state',
                       wd1\<lparr>state_file := save_sync_state state',
                           log := log wd1 @ [Save state']\<rparr>))
                else (None, state, wd1))
      else (None, state, wd))"

definition upload ::
  "('f, 'w) env \<Rightarrow> client \<Rightarrow> 'f transcription \<Rightarrow> ('f, 'w) world
     \<Rightarrow> (py_error + json option) \<times> ('f, 'w) world" where
  "upload env self t wd =
     create_transcription_page env self (t_text t) (t_timestamp t) (t_duration t)
       (t_enhanced_text t) (t_prompt_name t) (Some (t_id t)) wd"

text \<open>
  A run of \<open>do_sync\<close> is described by four values: the exception that left it, if any;
  \<open>synced_count\<close>; the state object; the world. \<open>do_sync\<close> returns \<open>synced_count\<close>
  when no exception left it.

  One round of the \<open>for\<close> loop, from \<open>synced_count\<close>, the state object and the world.
  The call of \<open>create_transcription_page\<close> stands in no \<open>try\<close>: an exception that
  leaves it leaves the loop and \<open>do_sync\<close>.
\<close>

type_synonym ('f, 'w) run = "py_error option \<times> nat \<times> sync_state \<times> ('f, 'w) world"

definition drain_step ::
  "('f, 'w) env \<Rightarrow> client \<Rightarrow> 'f transcription \<Rightarrow> nat \<times> sync_state \<times> ('f, 'w) world
     \<Rightarrow> ('f, 'w) run" where
  "drain_step env self t acc =
     (case acc of (synced_count, state, wd) \<Rightarrow>
        (let (result, wd1) = upload env self t wd
         in case result of
              Inl e \<Rightarrow> (Some e, synced_count, state, wd1\<lparr>log := log wd1 @ [Upload t (Inl e)]\<rparr>)
            | Inr r \<Rightarrow>
                (let wd2 = wd1\<lparr>log := log wd1 @ [Upload t (Inr (result_truthy r))]\<rparr>
                 in if result_truthy r then
                      (let (now, w') = clock env (remote wd2);
                           state' = mark_synced state (t_id t) now
                       in (None, synced_count + 1, state',
                           wd2\<lparr>remote := w', state_file := save_sync_state state',
                               log := log wd2 @ [Save state']\<rparr>))
                    else (None, synced_count, state, wd2))))"

primrec drain ::
  "('f, 'w) env \<Rightarrow> client \<Rightarrow> 'f transcription list \<Rightarrow> nat \<times> sync_state \<times> ('f, 'w) world
     \<Rightarrow> ('f, 'w) run" where
  "drain env self [] acc = (None, acc)"
| "drain env self (t # ts) acc =
     (case drain_step env self t acc of
        (None, acc') \<Rightarrow> drain env self ts acc'
      | (Some e, acc') \<Rightarrow> (Some e, acc'))"

text \<open>
  \<open>do_sync\<close>; \<open>db\<close> is what \<open>read_transcriptions(db_path)\<close> does in this cycle: it
  raises or returns the records.
\<close>

definition do_sync ::
  "('f, 'w) env \<Rightarrow> client \<Rightarrow> py_error + 'f transcription list \<Rightarrow> sync_state
     \<Rightarrow> ('f, 'w) world \<Rightarrow> ('f, 'w) run" where
  "do_sync env self db state wd =
     (case db of
        Inl e \<Rightarrow> (None, 0, state, wd)
      | Inr transcriptions \<Rightarrow>
          (let unsynced = filter (\<lambda>t. \<not> is_synced state (t_id t)) transcriptions
           in if unsynced = [] then (None, 0, state, wd)
              else drain env self unsynced (0, state, wd)))"

text \<open>
  The \<open>--once\<close> path of \<open>sync_command\<close> from the loaded state on: the bootstrap lines,
  then one call of \<open>do_sync\<close>.
\<close>

definition sync_once ::
  "('f, 'w) env \<Rightarrow> client \<Rightarrow> py_error + 'f transcription list \<Rightarrow> sync_state
     \<Rightarrow> ('f, 'w) world \<Rightarrow> ('f, 'w) run" where
  "sync_once env self db state wd =
     (case bootstrap env state wd of
        (Some e, state1, wd1) \<Rightarrow> (Some e, 0, state1, wd1)
      | (None, state1, wd1) \<Rightarrow> do_sync env self db state1 wd1)"

section \<open>Reading a run and the record of events\<close>

text \<open>
  The calls of \<open>create_transcription_page\<close> in a record of events, in order, each with
  what came of it; and the requests posted.
\<close>

fun upload_of :: "'f event \<Rightarrow> ('f transcription \<times> (py_error + bool)) option" where
  "upload_of (Upload t r) = Some (t, r)"
| "upload_of e = None"

definition uploads :: "'f event list \<Rightarrow> ('f transcription \<times> (py_error + bool)) list" where
  "uploads es = List.map_filter upload_of es"

fun post_of :: "'f event \<Rightarrow> 'f payload option" where
  "post_of (Post p) = Some p"
| "post_of e = None"

definition posts :: "'f event list \<Rightarrow> 'f payload list" where
  "posts es = List.map_filter post_of es"

fun save_of :: "'f event \<Rightarrow> sync_state option" where
  "save_of (Save s) = Some s"
| "save_of e = None"

definition saves :: "'f event list \<Rightarrow> sync_state list" where
  "saves es = List.map_filter save_of es"

text \<open>The four values of a run.\<close>

definition raised_of :: "('f, 'w) run \<Rightarrow> py_error option" where
  "raised_of r = fst r"

definition count_of :: "('f, 'w) run \<Rightarrow> nat" where
  "count_of r = fst (snd r)"

definition state_of :: "('f, 'w) run \<Rightarrow> sync_state" where
  "state_of r = fst (snd (snd r))"

definition world_of :: "('f, 'w) run \<Rightarrow> ('f, 'w) world" where
  "world_of r = snd (snd (snd r))"

text \<open>
  The upload of a record, tried in a given world: it succeeds in the eyes of \<open>do_sync\<close>
  (a truthy result); it reports failure as a value (a falsy result, \<open>None\<close>); it raises.
\<close>

definition upload_outcome ::
  "('f, 'w) env \<Rightarrow> client \<Rightarrow> 'f transcription \<Rightarrow> ('f, 'w) world \<Rightarrow> py_error + bool" where
  "upload_outcome env self t wd =
     (case fst (upload env self t wd) of Inl e \<Rightarrow> Inl e | Inr r \<Rightarrow> Inr (result_truthy r))"

definition upload_ok :: "('f, 'w) env \<Rightarrow> client \<Rightarrow> 'f transcription \<Rightarrow> ('f, 'w) world \<Rightarrow> bool" where
  "upload_ok env self t wd = (upload_outcome env self t wd = Inr True)"

definition upload_fails :: "('f, 'w) env \<Rightarrow> client \<Rightarrow> 'f transcription \<Rightarrow> ('f, 'w) world \<Rightarrow> bool" where
  "upload_fails env self t wd = (upload_outcome env self t wd = Inr False)"

text \<open>The two payloads of a record, as \<open>do_sync\<close> passes its fields.\<close>

definition full_of :: "client \<Rightarrow> 'f transcription \<Rightarrow> 'f payload" where
  "full_of self t =
     full_payload self (t_text t) (t_timestamp t) (t_duration t) (t_enhanced_text t)
       (Some (t_id t))"

definition minimal_of :: "client \<Rightarrow> 'f transcription \<Rightarrow> 'f payload" where
  "minimal_of self t = minimal_payload self (t_text t) (t_enhanced_text t)"

section \<open>A concrete world\<close>

text \<open>
  Values at which the statements below are instantiated: a client, a time, records, and
  a remote side that counts the requests it has seen. It answers a page whose only block
  is the paragraph \<open>bad\<close> with status 400, a page whose only block is the paragraph
  \<open>garbled\<close> with status 200 and a body that is no JSON, and every other page with
  status 200 and the page object; it reports the ids \<open>A\<close> and \<open>B\<close> as already present.
\<close>

definition demo_client :: client where
  "demo_client = \<lparr>database_id = ''db'', title_property = ''Name''\<rparr>"

definition demo_time :: datetime where
  "demo_time = \<lparr>dt_year = 2024, dt_month = 2, dt_day = 29, dt_hour = 13, dt_minute = 5,
                 dt_second = 9, dt_microsecond = 250\<rparr>"

definition demo_record :: "string \<Rightarrow> string \<Rightarrow> unit transcription" where
  "demo_record i tx =
     \<lparr>t_id = i, t_text = tx, t_enhanced_text = None, t_timestamp = demo_time,
      t_duration = (), t_prompt_name = None, t_power_mode_name = None\<rparr>"

definition demo_env :: "(unit, nat) env" where
  "demo_env =
     \<lparr>http_post = (\<lambda>w p.
         (if children p = [Paragraph ''bad''] then Response 400 (Json_body JNull)
          else if children p = [Paragraph ''garbled''] then Response 200 Undecodable_body
          else Response 200 (Json_body (JObject [(''object'', JString ''page'')])), w + 1)),
      get_all_synced_ids = (\<lambda>w. (Inr {|''A'', ''B''|}, w)),
      clock = (\<lambda>w. (demo_time, w))\<rparr>"

text \<open>A remote side that cannot be reached: every request raises an \<open>httpx.HTTPError\<close>.\<close>

definition offline_env :: "(unit, nat) env" where
  "offline_env =
     \<lparr>http_post = (\<lambda>w p. (Post_raises HTTPError, w + 1)),
      get_all_synced_ids = (\<lambda>w. (Inr {||}, w)),
      clock = (\<lambda>w. (demo_time, w))\<rparr>"

definition demo_world :: "(unit, nat) world" where
  "demo_world = \<lparr>remote = 0, state_file = None, log = []\<rparr>"

section \<open>Properties\<close>

subsection \<open>The record id\<close>

lemma str_nat_length: "0 < k \<Longrightarrow> n < 10 ^ k \<Longrightarrow> length (str_nat n) \<le> k"
proof (induction k arbitrary: n)
  case 0 then show ?case by simp
next
  case (Suc k)
  show ?case
  proof (cases "n < 10")
    case True then show ?thesis by (simp add: str_nat.simps)
  next
    case False
    then have k: "0 < k" using Suc.prems by (cases k) auto
    have "n div 10 < 10 ^ k" using Suc.prems by (simp add: less_mult_imp_div_less mult.commute)
    from Suc.IH[OF k this] False show ?thesis by (subst str_nat.simps) simp
  qed
qed

lemma str_int_length: "length (str_int (sint (w :: 64 word))) \<le> 20"
proof -
  have lo: "- (2 ^ 63) \<le> sint w" using sint_ge[of w] by simp
  have hi: "sint w < 2 ^ 63" using sint_lt[of w] by simp
  show ?thesis
  proof (cases "sint w < 0")
    case True
    then have "nat (- sint w) < 10 ^ 19" using lo by simp
    from str_nat_length[OF _ this] True show ?thesis by (simp add: str_int_def)
  next
    case False
    then have "nat (sint w) < 10 ^ 19" using hi by simp
    from str_nat_length[OF _ this] False show ?thesis by (simp add: str_int_def)
  qed
qed

lemma record_id_fallback:
  "zid_hex = None \<or> zid_hex = Some [] \<Longrightarrow> record_id zid_hex z_pk = str_int (sint z_pk)"
  using str_int_length[of z_pk] by (auto simp: record_id_def Let_def)

lemma format_uuid_parts:
  assumes "length r = 32"
  shows "\<exists>a b c d e. r = a @ b @ c @ d @ e \<and> length a = 8 \<and> length b = 4 \<and> length c = 4
           \<and> length d = 4 \<and> length e = 12
           \<and> format_uuid r = a @ ''-'' @ b @ ''-'' @ c @ ''-'' @ d @ ''-'' @ e"
proof -
  let ?a = "take 8 r" and ?b = "slice 8 12 r" and ?c = "slice 12 16 r" and ?d = "slice 16 20 r"
    and ?e = "drop 20 r"
  have sp: "drop i r = take k (drop i r) @ drop (k + i) r" for i k
    by (simp only: drop_drop[symmetric] append_take_drop_id)
  have "r = take 8 r @ drop 8 r" by simp
  also have "drop 8 r = take 4 (drop 8 r) @ drop 12 r" using sp[of 8 4] by simp
  also have "drop 12 r = take 4 (drop 12 r) @ drop 16 r" using sp[of 12 4] by simp
  also have "drop 16 r = take 4 (drop 16 r) @ drop 20 r" using sp[of 16 4] by simp
  finally have "r = ?a @ ?b @ ?c @ ?d @ ?e" by (simp add: slice_def)
  moreover have "length ?a = 8" "length ?b = 4" "length ?c = 4" "length ?d = 4" "length ?e = 12"
    using assms by (simp_all add: slice_def)
  moreover have "format_uuid r = ?a @ ''-'' @ ?b @ ''-'' @ ?c @ ''-'' @ ?d @ ''-'' @ ?e"
    by (simp add: format_uuid_def)
  ultimately show ?thesis by blast
qed

text \<open>
  Claim C9. A source identifier of 32 characters becomes the record id in the dashed form
  8-4-4-4-12: the five groups are consecutive pieces of the identifier, of these lengths,
  joined by dashes; the identifier \<open>1234567890abcdef1234567890abcdef\<close> becomes
  \<open>12345678-90ab-cdef-1234-567890abcdef\<close>. Without an identifier (\<open>None\<close> or the empty
  string) the record id is \<open>str(Z_PK)\<close>: a 64-bit key has at most 20 characters, so the
  dashed form never applies to it.
\<close>

theorem record_id_canonical:
  "(length h = 32 \<longrightarrow>
      (\<exists>a b c d e. h = a @ b @ c @ d @ e \<and> length a = 8 \<and> length b = 4 \<and> length c = 4
         \<and> length d = 4 \<and> length e = 12
         \<and> record_id (Some h) z_pk = a @ ''-'' @ b @ ''-'' @ c @ ''-'' @ d @ ''-'' @ e))
   \<and> record_id (Some ''1234567890abcdef1234567890abcdef'') z_pk
       = ''12345678-90ab-cdef-1234-567890abcdef''
   \<and> record_id None z_pk = str_int (sint z_pk)
   \<and> record_id (Some []) z_pk = str_int (sint z_pk)"
proof -
  have "record_id (Some h) z_pk = format_uuid h" if "length h = 32"
    using that by (auto simp: record_id_def)
  then have 1: "length h = 32 \<longrightarrow>
      (\<exists>a b c d e. h = a @ b @ c @ d @ e \<and> length a = 8 \<and> length b = 4 \<and> length c = 4
         \<and> length d = 4 \<and> length e = 12
         \<and> record_id (Some h) z_pk = a @ ''-'' @ b @ ''-'' @ c @ ''-'' @ d @ ''-'' @ e)"
    using format_uuid_parts[of h] by simp
  have 2: "record_id (Some ''1234567890abcdef1234567890abcdef'') z_pk
       = ''12345678-90ab-cdef-1234-567890abcdef''"
    by (simp add: record_id_def format_uuid_def slice_def)
  show ?thesis using 1 2 record_id_fallback[of None z_pk] record_id_fallback[of "Some []" z_pk]
    by simp
qed

theorem record_id_canonical_witness:
  "length ''0F8FAD5BD9CB469FA16570867728950E'' = 32
   \<and> record_id (Some ''0F8FAD5BD9CB469FA16570867728950E'') 7
       = ''0F8FAD5B-D9CB-469F-A165-70867728950E''
   \<and> record_id None 7 = ''7'' \<and> record_id (Some []) 7 = ''7''"
  using record_id_canonical[of "''0F8FAD5BD9CB469FA16570867728950E''" 7]
  by (simp add: record_id_def format_uuid_def slice_def str_int_def str_nat.simps digit_char_def)

subsection \<open>Content chunks\<close>

lemma chunks_Nil: "chunks [] = []" by (simp add: chunks.simps)

lemma chunks_concat: "concat (chunks xs) = xs"
  by (induction xs rule: chunks.induct) (subst chunks.simps, simp)

lemma chunks_lengths:
  "map length (chunks xs) =
     replicate (length xs div 2000) 2000 @ (if length xs mod 2000 = 0 then [] else [length xs mod 2000])"
proof (induction xs rule: chunks.induct)
  case (1 xs)
  show ?case
  proof (cases "xs = []")
    case True then show ?thesis by (simp add: chunks_Nil)
  next
    case False
    note IH = 1[OF False]
    show ?thesis
    proof (cases "length xs < 2000")
      case True
      then have "drop 2000 xs = []" by simp
      with True False show ?thesis by (subst chunks.simps) (simp add: chunks_Nil)
    next
      case ge: False
      then obtain m where m: "length xs = m + 2000" by (metis add.commute le_Suc_ex not_less)
      have "chunks xs = take 2000 xs # chunks (drop 2000 xs)" using False by (subst chunks.simps) simp
      then show ?thesis using IH m by (simp add: min_def)
    qed
  qed
qed

lemma chunks_bounded: "list_all (\<lambda>c. c \<noteq> [] \<and> length c \<le> 2000) (chunks xs)"
proof -
  have "list_all (\<lambda>n. 0 < n \<and> n \<le> 2000) (map length (chunks xs))"
    unfolding chunks_lengths by (simp add: list_all_iff)
  then show ?thesis by (simp add: list_all_iff)
qed

lemma chunks_4500: "length xs = 4500 \<Longrightarrow> map length (chunks xs) = [2000, 2000, 500]"
proof -
  assume len: "length xs = 4500"
  have r: "replicate 2 (2000::nat) = [2000, 2000]" by (simp add: numeral_2_eq_2)
  have d: "(4500::nat) div 2000 = 2" and m: "(4500::nat) mod 2000 = 500" by simp_all
  show ?thesis unfolding chunks_lengths len d m r by simp
qed

subsection \<open>Requests, calls and the loop\<close>

lemma post_log [simp]: "log (snd (post env p wd)) = log wd @ [Post p]"
  by (simp add: post_def case_prod_beta)

lemma post_state_file [simp]: "state_file (snd (post env p wd)) = state_file wd"
  by (simp add: post_def case_prod_beta)

lemma post_result [simp]: "fst (post env p wd) = fst (http_post env (remote wd) p)"
  by (simp add: post_def case_prod_beta)

lemma post_remote [simp]: "remote (snd (post env p wd)) = snd (http_post env (remote wd) p)"
  by (simp add: post_def case_prod_beta)

lemma create_state_file [simp]:
  "state_file (snd (create_transcription_page env self tx ts du en pn vi wd)) = state_file wd"
  by (simp add: create_transcription_page_def Let_def case_prod_beta split: http_result.split)

text \<open>The requests of one call: the full payload, and the minimal one after it exactly when
  the first answer is a status other than 200.\<close>

lemma create_log:
  "log (snd (create_transcription_page env self tx ts du en pn vi wd)) =
     log wd @ Post (full_payload self tx ts du en vi)
       # (case fst (http_post env (remote wd) (full_payload self tx ts du en vi)) of
            Post_raises e \<Rightarrow> []
          | Response status body \<Rightarrow>
              if status = 200 then [] else [Post (minimal_payload self tx en)])"
  by (simp add: create_transcription_page_def Let_def case_prod_beta split: http_result.split)

lemma create_result:
  "fst (create_transcription_page env self tx ts du en pn vi wd) =
     (case http_post env (remote wd) (full_payload self tx ts du en vi) of
        (Post_raises e, w1) \<Rightarrow> handle e
      | (Response status body, w1) \<Rightarrow>
          if status = 200 then response_json body
          else (case fst (http_post env w1 (minimal_payload self tx en)) of
                  Post_raises e \<Rightarrow> handle e
                | Response status2 body2 \<Rightarrow>
                    if status2 = 200 then response_json body2 else Inr None))"
  by (simp add: create_transcription_page_def Let_def case_prod_beta split: http_result.split)

lemma upload_state_file [simp]: "state_file (snd (upload env self t wd)) = state_file wd"
  by (simp add: upload_def)

lemma uploads_append [simp]: "uploads (xs @ ys) = uploads xs @ uploads ys"
  by (simp add: uploads_def List.map_filter_def)

lemma uploads_simps [simp]:
  "uploads [] = []"
  "uploads (Post p # es) = uploads es"
  "uploads (Upload t r # es) = (t, r) # uploads es"
  "uploads (Save s # es) = uploads es"
  "uploads (List_existing_ids # es) = uploads es"
  by (simp_all add: uploads_def map_filter_simps)

lemma posts_append [simp]: "posts (xs @ ys) = posts xs @ posts ys"
  by (simp add: posts_def List.map_filter_def)

lemma posts_simps [simp]:
  "posts [] = []"
  "posts (Post p # es) = p # posts es"
  "posts (Upload t r # es) = posts es"
  "posts (Save s # es) = posts es"
  "posts (List_existing_ids # es) = posts es"
  by (simp_all add: posts_def List.map_filter_def)

lemma create_posts:
  "posts (log (snd (create_transcription_page env self tx ts du en pn vi wd))) =
     posts (log wd) @ full_payload self tx ts du en vi
       # (case fst (http_post env (remote wd) (full_payload self tx ts du en vi)) of
            Post_raises e \<Rightarrow> []
          | Response status body \<Rightarrow>
              if status = 200 then [] else [minimal_payload self tx en])"
  by (simp add: create_log split: http_result.split)

lemma upload_uploads [simp]: "uploads (log (snd (upload env self t wd))) = uploads (log wd)"
  by (simp add: upload_def create_log split: http_result.split)

lemma upload_posts:
  "posts (log (snd (upload env self t wd))) =
     posts (log wd) @ full_of self t
       # (case fst (http_post env (remote wd) (full_of self t)) of
            Post_raises e \<Rightarrow> []
          | Response status body \<Rightarrow> if status = 200 then [] else [minimal_of self t])"
  by (simp add: upload_def create_posts full_of_def minimal_of_def split: http_result.split)

text \<open>The three ways a round of the loop goes.\<close>

lemma drain_step_ok:
  assumes "upload_ok env self t wd"
  shows "drain_step env self t (n, s, wd) =
     (let wd1 = snd (upload env self t wd);
          now = fst (clock env (remote wd1));
          s' = mark_synced s (t_id t) now
      in (None, n + 1, s',
          wd1\<lparr>remote := snd (clock env (remote wd1)), state_file := save_sync_state s',
              log := log wd1 @ [Upload t (Inr True), Save s']\<rparr>))"
  using assms
  by (auto simp add: drain_step_def upload_ok_def upload_outcome_def Let_def case_prod_beta
      split: sum.splits)

lemma drain_step_fail:
  assumes "upload_fails env self t wd"
  shows "drain_step env self t (n, s, wd) =
     (let wd1 = snd (upload env self t wd)
      in (None, n, s, wd1\<lparr>log := log wd1 @ [Upload t (Inr False)]\<rparr>))"
  using assms
  by (auto simp add: drain_step_def upload_fails_def upload_outcome_def Let_def case_prod_beta
      split: sum.splits)

lemma drain_step_raise:
  assumes "upload_outcome env self t wd = Inl e"
  shows "drain_step env self t (n, s, wd) =
     (let wd1 = snd (upload env self t wd)
      in (Some e, n, s, wd1\<lparr>log := log wd1 @ [Upload t (Inl e)]\<rparr>))"
  using assms
  by (simp add: drain_step_def upload_outcome_def Let_def case_prod_beta split: sum.splits)

lemma outcome_cases:
  obtains (ok) "upload_ok env self t wd" | (fail) "upload_fails env self t wd"
  | (raise) e where "upload_outcome env self t wd = Inl e"
proof (cases "upload_outcome env self t wd")
  case (Inl e) then show ?thesis using raise by blast
next
  case (Inr b) then show ?thesis using ok fail
    by (cases b) (simp_all add: upload_ok_def upload_fails_def)
qed

lemma drain_step_summary:
  "uploads (log (world_of (drain_step env self t (n, s, wd))))
      = uploads (log wd) @ [(t, upload_outcome env self t wd)]
   \<and> posts (log (world_of (drain_step env self t (n, s, wd))))
      = posts (log (snd (upload env self t wd)))
   \<and> raised_of (drain_step env self t (n, s, wd))
      = (case upload_outcome env self t wd of Inl e \<Rightarrow> Some e | Inr b \<Rightarrow> None)
   \<and> count_of (drain_step env self t (n, s, wd)) = n + (if upload_ok env self t wd then 1 else 0)
   \<and> synced_ids (state_of (drain_step env self t (n, s, wd)))
          = (if upload_ok env self t wd then finsert (t_id t) (synced_ids s) else synced_ids s)
   \<and> notion_cache_populated (state_of (drain_step env self t (n, s, wd)))
          = notion_cache_populated s"
proof (cases rule: outcome_cases[of env self t wd])
  case ok
  then show ?thesis
    by (simp add: drain_step_ok Let_def world_of_def count_of_def state_of_def raised_of_def
        mark_synced_def upload_ok_def)
next
  case fail
  then show ?thesis
    by (simp add: drain_step_fail Let_def world_of_def count_of_def state_of_def raised_of_def
        upload_ok_def upload_fails_def)
next
  case (raise e)
  then show ?thesis
    by (simp add: drain_step_raise Let_def world_of_def count_of_def state_of_def raised_of_def
        upload_ok_def)
qed

lemma drain_Cons_None:
  "raised_of (drain_step env self t acc) = None \<Longrightarrow>
     drain env self (t # ts) acc = drain env self ts (snd (drain_step env self t acc))"
  by (cases "drain_step env self t acc") (simp add: raised_of_def)

lemma drain_Cons_Some:
  "raised_of (drain_step env self t acc) = Some e \<Longrightarrow>
     drain env self (t # ts) acc = drain_step env self t acc"
  by (cases "drain_step env self t acc") (simp add: raised_of_def)

lemma drain_summary:
  "\<exists>us rest. uploads (log (world_of (drain env self ts (n, s, wd)))) = uploads (log wd) @ us
      \<and> ts = map fst us @ rest
      \<and> (raised_of (drain env self ts (n, s, wd)) = None \<longrightarrow> rest = [])
      \<and> count_of (drain env self ts (n, s, wd)) = n + length (filter (\<lambda>u. snd u = Inr True) us)
      \<and> fset (synced_ids (state_of (drain env self ts (n, s, wd))))
          = fset (synced_ids s) \<union> t_id ` fst ` {u \<in> set us. snd u = Inr True}
      \<and> notion_cache_populated (state_of (drain env self ts (n, s, wd)))
          = notion_cache_populated s"
proof (induction ts arbitrary: n s wd)
  case Nil
  show ?case by (simp add: world_of_def count_of_def state_of_def raised_of_def)
next
  case (Cons t ts)
  obtain x n1 s1 wd1 where st: "drain_step env self t (n, s, wd) = (x, n1, s1, wd1)"
    by (cases "drain_step env self t (n, s, wd)") auto
  define r where "r = upload_outcome env self t wd"
  define ok where "ok = upload_ok env self t wd"
  have okr: "ok = (r = Inr True)" by (simp add: ok_def r_def upload_ok_def)
  from drain_step_summary[of env self t n s wd] st have
    1: "uploads (log wd1) = uploads (log wd) @ [(t, r)]"
    and 0: "x = (case r of Inl e \<Rightarrow> Some e | Inr b \<Rightarrow> None)"
    and 2: "n1 = n + (if ok then 1 else 0)"
    and 3: "synced_ids s1 = (if ok then finsert (t_id t) (synced_ids s) else synced_ids s)"
    and 4: "notion_cache_populated s1 = notion_cache_populated s"
    by (simp_all add: world_of_def count_of_def state_of_def raised_of_def ok_def r_def)
  show ?case
  proof (cases x)
    case (Some e)
    then have dr: "drain env self (t # ts) (n, s, wd) = (Some e, n1, s1, wd1)"
      using st by simp
    from Some 0 have rl: "r = Inl e" by (cases r) simp_all
    then have nok: "\<not> ok" by (simp add: okr)
    have f1: "uploads (log (world_of (drain env self (t # ts) (n, s, wd)))) = uploads (log wd) @ [(t, r)]"
      using dr 1 by (simp add: world_of_def)
    have f2: "t # ts = map fst [(t, r)] @ ts" by simp
    have f3: "raised_of (drain env self (t # ts) (n, s, wd)) = None \<longrightarrow> ts = []"
      using dr by (simp add: raised_of_def)
    have f4: "count_of (drain env self (t # ts) (n, s, wd))
                = n + length (filter (\<lambda>u. snd u = Inr True) [(t, r)])"
      using dr 2 nok rl by (simp add: count_of_def)
    have f5: "fset (synced_ids (state_of (drain env self (t # ts) (n, s, wd))))
          = fset (synced_ids s) \<union> t_id ` fst ` {u \<in> set [(t, r)]. snd u = Inr True}"
    proof -
      have "{u \<in> set [(t, r)]. snd u = Inr True} = {}" using rl by auto
      moreover have "state_of (drain env self (t # ts) (n, s, wd)) = s1"
        unfolding dr by (simp add: state_of_def)
      ultimately show ?thesis using 3 nok by (simp only: image_empty Un_empty_right if_False)
    qed
    have f6: "notion_cache_populated (state_of (drain env self (t # ts) (n, s, wd)))
          = notion_cache_populated s"
      using dr 4 by (simp add: state_of_def)
    show ?thesis
      by (rule exI[of _ "[(t, r)]"], rule exI[of _ ts]) (intro conjI f1 f2 f3 f4 f5 f6)
  next
    case None
    then have dr: "drain env self (t # ts) (n, s, wd) = drain env self ts (n1, s1, wd1)"
      using st by simp
    from Cons.IH[of n1 s1 wd1] obtain us rest where ih:
      "uploads (log (world_of (drain env self ts (n1, s1, wd1)))) = uploads (log wd1) @ us
       \<and> ts = map fst us @ rest
       \<and> (raised_of (drain env self ts (n1, s1, wd1)) = None \<longrightarrow> rest = [])
       \<and> count_of (drain env self ts (n1, s1, wd1))
                = n1 + length (filter (\<lambda>u. snd u = Inr True) us)
       \<and> fset (synced_ids (state_of (drain env self ts (n1, s1, wd1))))
            = fset (synced_ids s1) \<union> t_id ` fst ` {u \<in> set us. snd u = Inr True}
       \<and> notion_cache_populated (state_of (drain env self ts (n1, s1, wd1)))
            = notion_cache_populated s1"
      by (elim exE) (rule that)
    note a = ih[THEN conjunct1]
    note b = ih[THEN conjunct2, THEN conjunct1]
    note b' = ih[THEN conjunct2, THEN conjunct2, THEN conjunct1]
    note c = ih[THEN conjunct2, THEN conjunct2, THEN conjunct2, THEN conjunct1]
    note d = ih[THEN conjunct2, THEN conjunct2, THEN conjunct2, THEN conjunct2, THEN conjunct1]
    note e = ih[THEN conjunct2, THEN conjunct2, THEN conjunct2, THEN conjunct2, THEN conjunct2]
    have f1: "uploads (log (world_of (drain env self (t # ts) (n, s, wd))))
                = uploads (log wd) @ (t, r) # us"
      using a 1 dr by simp
    have f2: "t # ts = map fst ((t, r) # us) @ rest" using b by simp
    have f3: "raised_of (drain env self (t # ts) (n, s, wd)) = None \<longrightarrow> rest = []"
      using b' dr by simp
    have f4: "count_of (drain env self (t # ts) (n, s, wd))
                = n + length (filter (\<lambda>u. snd u = Inr True) ((t, r) # us))"
      using c 2 dr by (simp add: okr)
    have f5: "fset (synced_ids (state_of (drain env self (t # ts) (n, s, wd))))
          = fset (synced_ids s) \<union> t_id ` fst ` {u \<in> set ((t, r) # us). snd u = Inr True}"
    proof -
      have "{u \<in> set ((t, r) # us). snd u = Inr True}
              = (if ok then insert (t, r) {u \<in> set us. snd u = Inr True}
                 else {u \<in> set us. snd u = Inr True})"
        by (auto simp: okr)
      then show ?thesis using d 3 dr by (cases ok) simp_all
    qed
    have f6: "notion_cache_populated (state_of (drain env self (t # ts) (n, s, wd)))
          = notion_cache_populated s"
      using e 4 dr by simp
    show ?thesis
      by (rule exI[of _ "(t, r) # us"], rule exI[of _ rest]) (intro conjI f1 f2 f3 f4 f5 f6)
  qed
qed

text \<open>The requests of a loop: those of its first record's upload come first.\<close>

lemma drain_log_grows:
  "\<exists>more. log (world_of (drain env self ts (n, s, wd))) = log wd @ more"
proof (induction ts arbitrary: n s wd)
  case Nil
  show ?case by (simp add: world_of_def)
next
  case (Cons t ts)
  obtain x n1 s1 wd1 where st: "drain_step env self t (n, s, wd) = (x, n1, s1, wd1)"
    by (cases "drain_step env self t (n, s, wd)") auto
  have g: "\<exists>more. log wd1 = log wd @ more"
    using st
    by (auto simp: drain_step_def Let_def case_prod_beta upload_def create_log
        split: sum.splits if_splits)
  show ?case
  proof (cases x)
    case None
    with st Cons.IH[of n1 s1 wd1] g show ?thesis by auto
  next
    case (Some e)
    with st g show ?thesis by (simp add: world_of_def)
  qed
qed

lemma drain_posts_head:
  "\<exists>more. posts (log (world_of (drain env self (t # ts) (n, s, wd))))
      = posts (log wd) @ full_of self t # more"
proof -
  obtain x n1 s1 wd1 where st: "drain_step env self t (n, s, wd) = (x, n1, s1, wd1)"
    by (cases "drain_step env self t (n, s, wd)") auto
  from drain_step_summary[of env self t n s wd] st
  have "posts (log wd1) = posts (log (snd (upload env self t wd)))"
    by (simp add: world_of_def)
  then obtain m1 where p1: "posts (log wd1) = posts (log wd) @ full_of self t # m1"
    unfolding upload_posts by blast
  show ?thesis
  proof (cases x)
    case (Some e)
    with st p1 show ?thesis by (simp add: world_of_def)
  next
    case None
    obtain more where "log (world_of (drain env self ts (n1, s1, wd1))) = log wd1 @ more"
      using drain_log_grows by blast
    then have "posts (log (world_of (drain env self ts (n1, s1, wd1))))
                 = posts (log wd) @ full_of self t # (m1 @ posts more)"
      using p1 by simp
    with None st show ?thesis by simp
  qed
qed

subsection \<open>The content blocks of a page\<close>

lemma page_children_prefix:
  "take (length (chunks tx)) (page_children tx en) = map Paragraph (chunks tx)"
  by (simp add: page_children_def)

text \<open>
  Claim C8. The text of a record is cut into consecutive chunks: joined again they give the
  text, none is empty and none is longer than 2000 units; a text of 4500 units gives
  three chunks of 2000, 2000 and 500 units. The paragraphs of these chunks, in order, head
  the list of content blocks. The blocks sent, in the full payload and in the minimal
  one, are the first 100 of that list, so never more than 100. No length is a reason to
  refuse: a call always posts the full payload first.
\<close>

theorem content_chunks:
  "concat (chunks tx) = tx
   \<and> list_all (\<lambda>c. c \<noteq> [] \<and> length c \<le> 2000) (chunks tx)
   \<and> (length tx = 4500 \<longrightarrow> map length (chunks tx) = [2000, 2000, 500])
   \<and> take (length (chunks tx)) (page_children tx en) = map Paragraph (chunks tx)
   \<and> children (full_payload self tx ts du en vi) = take 100 (page_children tx en)
   \<and> children (minimal_payload self tx en) = take 100 (page_children tx en)
   \<and> length (take 100 (page_children tx en)) \<le> 100
   \<and> (\<exists>rest. posts (log (snd (create_transcription_page env self tx ts du en pn vi wd)))
         = posts (log wd) @ full_payload self tx ts du en vi # rest)"
proof -
  have "\<exists>rest. posts (log (snd (create_transcription_page env self tx ts du en pn vi wd)))
         = posts (log wd) @ full_payload self tx ts du en vi # rest"
    unfolding create_posts by blast
  then show ?thesis
    using chunks_concat[of tx] chunks_bounded[of tx] chunks_4500[of tx] page_children_prefix[of tx en]
    by (simp add: full_payload_def minimal_payload_def)
qed

theorem content_chunks_witness:
  "length (replicate 4500 CHR ''a'') = 4500
   \<and> map length (chunks (replicate 4500 CHR ''a'')) = [2000, 2000, 500]
   \<and> concat (chunks (replicate 4500 CHR ''a'')) = replicate 4500 CHR ''a''"
proof -
  have len: "length (replicate 4500 CHR ''a'') = 4500" by simp
  show ?thesis
    using len content_chunks[where tx = "replicate 4500 CHR ''a''" and en = None
        and self = demo_client and ts = demo_time and du = "()" and vi = None
        and env = demo_env and pn = None and wd = demo_world]
    by blast
qed

subsection \<open>Retrying an upload\<close>

lemma upload_fails_continue:
  assumes "upload_fails env self t wd"
  shows "raised_of (drain_step env self t (n, s, wd)) = None
     \<and> drain env self (t # ts) (n, s, wd)
        = drain env self ts
            (n, s, (snd (upload env self t wd))
                     \<lparr>log := log (snd (upload env self t wd)) @ [Upload t (Inr False)]\<rparr>)"
  using assms by (simp add: drain_step_fail Let_def raised_of_def)

lemma upload_fails_next_posted:
  assumes "upload_fails env self t wd"
  shows "\<exists>more. posts (log (world_of (drain env self (t # t' # ts) (n, s, wd))))
           = posts (log (snd (upload env self t wd))) @ full_of self t' # more"
proof -
  define wd1 where
    "wd1 = (snd (upload env self t wd))
             \<lparr>log := log (snd (upload env self t wd)) @ [Upload t (Inr False)]\<rparr>"
  have "drain env self (t # t' # ts) (n, s, wd) = drain env self (t' # ts) (n, s, wd1)"
    using upload_fails_continue[OF assms, of n s "t' # ts"] by (simp only: wd1_def)
  moreover have "posts (log wd1) = posts (log (snd (upload env self t wd)))"
    by (simp add: wd1_def)
  ultimately show ?thesis
    using drain_posts_head[of env self t' ts n s wd1] by simp
qed

text \<open>
  Claim C6, as the code has it. When the request with the full property set is answered
  with a status other than 200, the call posts exactly one more request, the minimal one:
  the title as only property and the same content blocks; its answer decides the result,
  and when that answer too is a status other than 200, or the retry raises an
  \<open>httpx.HTTPError\<close>, the call returns \<open>None\<close>. When the first answer is 200 there is
  no second request, and the result is what \<open>response.json()\<close> gives. When the first
  request raises there is no second request either: an \<open>httpx.HTTPError\<close> is caught and
  \<open>None\<close> is returned, any other exception leaves the call. After a call that returned
  \<open>None\<close> the loop of \<open>do_sync\<close> goes on with the state object unchanged: the request
  with the full payload of the next record is posted.
\<close>

theorem upload_retry:
  "(\<forall>status body w1.
      http_post env (remote wd) (full_payload self tx ts du en vi) = (Response status body, w1)
        \<and> status \<noteq> 200 \<longrightarrow>
      posts (log (snd (create_transcription_page env self tx ts du en pn vi wd)))
        = posts (log wd) @ [full_payload self tx ts du en vi, minimal_payload self tx en]
      \<and> fst (create_transcription_page env self tx ts du en pn vi wd)
        = (case fst (http_post env w1 (minimal_payload self tx en)) of
             Post_raises e \<Rightarrow> handle e
           | Response status2 body2 \<Rightarrow>
               if status2 = 200 then response_json body2 else Inr None)
      \<and> ((\<exists>status2 body2. fst (http_post env w1 (minimal_payload self tx en))
                             = Response status2 body2 \<and> status2 \<noteq> 200)
            \<or> fst (http_post env w1 (minimal_payload self tx en)) = Post_raises HTTPError \<longrightarrow>
          fst (create_transcription_page env self tx ts du en pn vi wd) = Inr None))
   \<and> (\<forall>body w1.
      http_post env (remote wd) (full_payload self tx ts du en vi) = (Response 200 body, w1) \<longrightarrow>
      posts (log (snd (create_transcription_page env self tx ts du en pn vi wd)))
        = posts (log wd) @ [full_payload self tx ts du en vi]
      \<and> fst (create_transcription_page env self tx ts du en pn vi wd) = response_json body)
   \<and> (\<forall>e w1.
      http_post env (remote wd) (full_payload self tx ts du en vi) = (Post_raises e, w1) \<longrightarrow>
      posts (log (snd (create_transcription_page env self tx ts du en pn vi wd)))
        = posts (log wd) @ [full_payload self tx ts du en vi]
      \<and> fst (create_transcription_page env self tx ts du en pn vi wd)
        = (if e = HTTPError then Inr None else Inl e))
   \<and> properties (minimal_payload self tx en :: 'f payload)
        = [title_property self \<mapsto> Title (page_title tx)]
   \<and> children (minimal_payload self tx en :: 'f payload)
        = children (full_payload self tx ts du en vi)
   \<and> (\<forall>t t' rest n s.
        fst (upload env self t wd) = Inr None \<longrightarrow>
          raised_of (drain_step env self t (n, s, wd)) = None
          \<and> state_of (drain_step env self t (n, s, wd)) = s
          \<and> drain env self (t # t' # rest) (n, s, wd)
              = drain env self (t' # rest) (snd (drain_step env self t (n, s, wd)))
          \<and> (\<exists>more. posts (log (world_of (drain env self (t # t' # rest) (n, s, wd))))
                = posts (log (snd (upload env self t wd))) @ full_of self t' # more))"
proof -
  have loop: "\<forall>t t' rest n s.
        fst (upload env self t wd) = Inr None \<longrightarrow>
          raised_of (drain_step env self t (n, s, wd)) = None
          \<and> state_of (drain_step env self t (n, s, wd)) = s
          \<and> drain env self (t # t' # rest) (n, s, wd)
              = drain env self (t' # rest) (snd (drain_step env self t (n, s, wd)))
          \<and> (\<exists>more. posts (log (world_of (drain env self (t # t' # rest) (n, s, wd))))
                = posts (log (snd (upload env self t wd))) @ full_of self t' # more)"
  proof (intro allI impI)
    fix t t' rest n s
    assume a: "fst (upload env self t wd) = Inr None"
    then have f: "upload_fails env self t wd"
      by (simp add: upload_fails_def upload_outcome_def result_truthy_def)
    have 1: "raised_of (drain_step env self t (n, s, wd)) = None"
      using upload_fails_continue[OF f] by blast
    have 2: "state_of (drain_step env self t (n, s, wd)) = s"
      using f by (simp add: drain_step_fail Let_def state_of_def)
    have 3: "drain env self (t # t' # rest) (n, s, wd)
              = drain env self (t' # rest) (snd (drain_step env self t (n, s, wd)))"
      using 1 by (rule drain_Cons_None)
    show "raised_of (drain_step env self t (n, s, wd)) = None
          \<and> state_of (drain_step env self t (n, s, wd)) = s
          \<and> drain env self (t # t' # rest) (n, s, wd)
              = drain env self (t' # rest) (snd (drain_step env self t (n, s, wd)))
          \<and> (\<exists>more. posts (log (world_of (drain env self (t # t' # rest) (n, s, wd))))
                = posts (log (snd (upload env self t wd))) @ full_of self t' # more)"
      using 1 2 3 upload_fails_next_posted[OF f, of t' rest n s] by (intro conjI)
  qed
  have rest: "(\<forall>status body w1.
      http_post env (remote wd) (full_payload self tx ts du en vi) = (Response status body, w1)
        \<and> status \<noteq> 200 \<longrightarrow>
      posts (log (snd (create_transcription_page env self tx ts du en pn vi wd)))
        = posts (log wd) @ [full_payload self tx ts du en vi, minimal_payload self tx en]
      \<and> fst (create_transcription_page env self tx ts du en pn vi wd)
        = (case fst (http_post env w1 (minimal_payload self tx en)) of
             Post_raises e \<Rightarrow> handle e
           | Response status2 body2 \<Rightarrow>
               if status2 = 200 then response_json body2 else Inr None)
      \<and> ((\<exists>status2 body2. fst (http_post env w1 (minimal_payload self tx en))
                             = Response status2 body2 \<and> status2 \<noteq> 200)
            \<or> fst (http_post env w1 (minimal_payload self tx en)) = Post_raises HTTPError \<longrightarrow>
          fst (create_transcription_page env self tx ts du en pn vi wd) = Inr None))
   \<and> (\<forall>body w1.
      http_post env (remote wd) (full_payload self tx ts du en vi) = (Response 200 body, w1) \<longrightarrow>
      posts (log (snd (create_transcription_page env self tx ts du en pn vi wd)))
        = posts (log wd) @ [full_payload self tx ts du en vi]
      \<and> fst (create_transcription_page env self tx ts du en pn vi wd) = response_json body)
   \<and> (\<forall>e w1.
      http_post env (remote wd) (full_payload self tx ts du en vi) = (Post_raises e, w1) \<longrightarrow>
      posts (log (snd (create_transcription_page env self tx ts du en pn vi wd)))
        = posts (log wd) @ [full_payload self tx ts du en vi]
      \<and> fst (create_transcription_page env self tx ts du en pn vi wd)
        = (if e = HTTPError then Inr None else Inl e))
   \<and> properties (minimal_payload self tx en :: 'f payload)
        = [title_property self \<mapsto> Title (page_title tx)]
   \<and> children (minimal_payload self tx en :: 'f payload)
        = children (full_payload self tx ts du en vi)"
    by (auto simp add: create_posts create_result minimal_payload_def full_payload_def handle_def)
  from rest loop show ?thesis by (elim conjE, intro conjI) assumption+
qed

theorem upload_retry_witness:
  "posts (log (snd (create_transcription_page demo_env demo_client ''bad'' demo_time () None None
       (Some ''id-2'') demo_world)))
     = [full_payload demo_client ''bad'' demo_time () None (Some ''id-2''),
        minimal_payload demo_client ''bad'' None]
   \<and> fst (create_transcription_page demo_env demo_client ''bad'' demo_time () None None
       (Some ''id-2'') demo_world) = Inr None"
proof -
  have ch: "chunks ''bad'' = [''bad'']" by (simp add: chunks.simps)
  have p: "http_post demo_env (remote demo_world)
             (full_payload demo_client ''bad'' demo_time () None (Some ''id-2''))
           = (Response 400 (Json_body JNull), 1)"
    by (simp add: demo_env_def demo_world_def full_payload_def page_children_def truthy_str_def ch)
  have q: "fst (http_post demo_env 1 (minimal_payload demo_client ''bad'' None))
           = Response 400 (Json_body JNull)"
    by (simp add: demo_env_def minimal_payload_def page_children_def truthy_str_def ch)
  have ne: "(400::nat) \<noteq> 200" by simp
  note th = upload_retry[where env = demo_env and wd = demo_world and self = demo_client
        and tx = "''bad''" and ts = demo_time and du = "()" and en = None and pn = None
        and vi = "Some ''id-2''"]
  from th p ne q have
    "posts (log (snd (create_transcription_page demo_env demo_client ''bad'' demo_time () None
         None (Some ''id-2'') demo_world)))
       = posts (log demo_world)
           @ [full_payload demo_client ''bad'' demo_time () None (Some ''id-2''),
              minimal_payload demo_client ''bad'' None]
     \<and> fst (create_transcription_page demo_env demo_client ''bad'' demo_time () None None
         (Some ''id-2'') demo_world) = Inr None"
    by blast
  moreover have "posts (log demo_world) = []" by (simp add: demo_world_def)
  ultimately show ?thesis by simp
qed

text \<open>
  Claim C6 as stated fails: with a remote side that cannot be reached, the full upload
  fails and the call makes one request in all, so no retry with the minimal property set.
\<close>

theorem upload_no_retry_on_http_error:
  "fst (create_transcription_page offline_env demo_client ''hello'' demo_time () None None
       (Some ''id-1'') demo_world) = Inr None
   \<and> posts (log (snd (create_transcription_page offline_env demo_client ''hello'' demo_time ()
       None None (Some ''id-1'') demo_world)))
     = [full_payload demo_client ''hello'' demo_time () None (Some ''id-1'')]
   \<and> length (posts (log (snd (create_transcription_page offline_env demo_client ''hello''
       demo_time () None None (Some ''id-1'') demo_world)))) = 1"
  by (simp add: create_posts create_result offline_env_def demo_world_def handle_def)

end
